theory Spec2Isabelle
  imports Main "HOL-Library.Word"
begin

section \<open>Decision state machines (internal/activity.go, second part)\<close>

text \<open>
  The Go code keeps every decision state machine behind a pointer that is shared by the
  helper's linked list, by the helper's map and by the caller that obtained it from
  \<open>getDecision\<close>. The model therefore has an explicit store: \<open>machines\<close> is the list of
  all machines ever allocated by one helper, and the address of a machine is its index.
  An element of the Go \<open>container/list\<close> wraps exactly one machine, so list elements are
  identified with machine addresses.

  A Go panic unwinds the stack but keeps every mutation made before it. Every operation
  that can panic therefore returns a pair: \<open>Inl\<close> of the panic value or \<open>Inr\<close> of the
  result, together with the state reached.
\<close>

text \<open>A Go byte slice; \<open>char\<close> is a byte, so \<open>[]byte(s)\<close> and \<open>string(b)\<close> are the identity.\<close>

type_synonym bytes = string

datatype decisionState =
    decisionStateCreated
  | decisionStateDecisionSent
  | decisionStateCanceledBeforeInitiated
  | decisionStateInitiated
  | decisionStateStarted
  | decisionStateCanceledAfterInitiated
  | decisionStateCanceledAfterStarted
  | decisionStateCancellationDecisionSent
  | decisionStateCompletedAfterCancellationDecisionSent
  | decisionStateCompleted

datatype decisionType =
    decisionTypeActivity
  | decisionTypeChildWorkflow
  | decisionTypeCancellation
  | decisionTypeMarker
  | decisionTypeTimer
  | decisionTypeSignal
  | decisionTypeUpsertSearchAttributes

datatype decisionID = DecisionID decisionType string

definition makeDecisionID :: "decisionType \<Rightarrow> string \<Rightarrow> decisionID" where
  "makeDecisionID decisionType i = DecisionID decisionType i"

text \<open>The event names appended to a machine's history trail.\<close>

definition eventCancel :: string where "eventCancel = ''cancel''"
definition eventDecisionSent :: string where "eventDecisionSent = ''handleDecisionSent''"
definition eventInitiated :: string where "eventInitiated = ''handleInitiatedEvent''"
definition eventInitiationFailed :: string where
  "eventInitiationFailed = ''handleInitiationFailedEvent''"
definition eventStarted :: string where "eventStarted = ''handleStartedEvent''"
definition eventCompletion :: string where "eventCompletion = ''handleCompletionEvent''"
definition eventCancelInitiated :: string where
  "eventCancelInitiated = ''handleCancelInitiatedEvent''"
definition eventCancelFailed :: string where "eventCancelFailed = ''handleCancelFailedEvent''"
definition eventCanceled :: string where "eventCanceled = ''handleCanceledEvent''"

definition sideEffectMarkerName :: string where "sideEffectMarkerName = ''SideEffect''"
definition versionMarkerName :: string where "versionMarkerName = ''Version''"
definition localActivityMarkerName :: string where "localActivityMarkerName = ''LocalActivity''"
definition mutableSideEffectMarkerName :: string where
  "mutableSideEffectMarkerName = ''MutableSideEffect''"

fun decisionState_String :: "decisionState \<Rightarrow> string" where
  "decisionState_String decisionStateCreated = ''Created''"
| "decisionState_String decisionStateDecisionSent = ''DecisionSent''"
| "decisionState_String decisionStateCanceledBeforeInitiated = ''CanceledBeforeInitiated''"
| "decisionState_String decisionStateInitiated = ''Initiated''"
| "decisionState_String decisionStateStarted = ''Started''"
| "decisionState_String decisionStateCanceledAfterInitiated = ''CanceledAfterInitiated''"
| "decisionState_String decisionStateCanceledAfterStarted = ''CanceledAfterStarted''"
| "decisionState_String decisionStateCancellationDecisionSent = ''CancellationDecisionSent''"
| "decisionState_String decisionStateCompletedAfterCancellationDecisionSent =
     ''CompletedAfterCancellationDecisionSent''"
| "decisionState_String decisionStateCompleted = ''Completed''"

subsection \<open>Decisions and the data attached to a machine\<close>

text \<open>
  The protobuf attribute structs are generated code outside the sources at hand; each is
  modelled with the fields that the state machines and the environment read or write.
\<close>

record ScheduleActivityTaskDecisionAttributes =
  ActivityId :: string
  ActivityTypeName :: string
  TaskListName :: string
  ActivityInput :: "bytes option"

record StartTimerDecisionAttributes =
  TimerId :: string
  StartToFireTimeout :: int

record StartChildWorkflowExecutionDecisionAttributes =
  Domain :: string
  WorkflowId :: string
  WorkflowTypeName :: string
  ChildInput :: "bytes option"

datatype decision =
    ScheduleActivityTaskDecision ScheduleActivityTaskDecisionAttributes
  | RequestCancelActivityTaskDecision string
  | StartTimerDecision StartTimerDecisionAttributes
  | CancelTimerDecision string
  | StartChildWorkflowExecutionDecision StartChildWorkflowExecutionDecisionAttributes
  | RequestCancelExternalWorkflowExecutionDecision string string string bytes bool
      \<comment> \<open>Domain, WorkflowId, RunId, Control, ChildWorkflowOnly\<close>
  | SignalExternalWorkflowExecutionDecision string string string string "bytes option" bytes bool
      \<comment> \<open>Domain, WorkflowId, RunId, SignalName, Input, Control, ChildWorkflowOnly\<close>
  | RecordMarkerDecision string "bytes option"
      \<comment> \<open>MarkerName, Details\<close>
  | UpsertWorkflowSearchAttributesDecision "(string \<times> bytes) list"

text \<open>
  The waiters of internal_event_handlers.go. A machine's \<open>data\<close> field points to one of
  them; the waiter is reachable only through its machine, so it is stored inside it. The
  callbacks themselves are closures of the caller: the model records their invocations
  in a log (see the environment below) instead of running them.
\<close>

datatype scheduledKind =
    scheduledTimer
  | scheduledActivity bool      \<comment> \<open>waitForCancelRequest\<close>
  | scheduledChildWorkflow bool \<comment> \<open>waitForCancellation\<close>
  | scheduledCancellation
  | scheduledSignal

record scheduled =
  waiter :: scheduledKind
  handled :: bool

text \<open>The Go struct types that implement the \<open>decisionStateMachine\<close> interface.\<close>

datatype machineKind =
    activityDecisionStateMachine
  | timerDecisionStateMachine
  | childWorkflowDecisionStateMachine
  | cancelExternalWorkflowDecisionStateMachine
  | signalExternalWorkflowDecisionStateMachine
  | markerDecisionStateMachine
  | upsertSearchAttributesDecisionStateMachine

text \<open>
  One record for \<open>decisionStateMachineBase\<close> and the fields of the structs embedding it:
  \<open>attributes\<close> holds the attributes of an activity, timer or child workflow machine
  (wrapped in the decision they produce in state Created) and the \<open>decision\<close> of a naive
  machine; \<open>canceled\<close> is the timer machine's flag.
\<close>

record decisionStateMachine =
  kind :: machineKind
  ident :: decisionID
  state :: decisionState
  history :: "string list"
  data :: "scheduled option"
  attributes :: decision
  canceled :: bool

datatype illegalState =
    UnknownDecision decisionID
  | DuplicateDecision decisionID
  | InvalidStateTransition string decisionID decisionState
  | UnexpectedEventType
  | UnableToFindActivityID "64 word"
  | LocalActivityMismatch string string

datatype panic =
    stateMachineIllegalStatePanic illegalState
  | PanicString string
  | PanicError string
  | TypeAssertionPanic

record decisionsHelper =
  machines :: "decisionStateMachine list"
  orderedDecisions :: "nat list"
  decisions :: "decisionID \<Rightarrow> nat option"
  scheduledEventIDToActivityID :: "64 word \<Rightarrow> string option"
  scheduledEventIDToCancellationID :: "64 word \<Rightarrow> string option"
  scheduledEventIDToSignalID :: "64 word \<Rightarrow> string option"

type_synonym 'a outcome = "(panic + 'a) \<times> decisionsHelper"

definition newDecisionStateMachineBase ::
  "machineKind \<Rightarrow> decisionType \<Rightarrow> string \<Rightarrow> decision \<Rightarrow> decisionStateMachine" where
  "newDecisionStateMachineBase k decisionType i d =
     \<lparr>kind = k, ident = makeDecisionID decisionType i, state = decisionStateCreated,
      history = [decisionState_String decisionStateCreated], data = None,
      attributes = d, canceled = False\<rparr>"

text \<open>Allocation of a new machine: it gets the next free address of the store.\<close>

definition alloc :: "decisionStateMachine \<Rightarrow> decisionsHelper \<Rightarrow> nat \<times> decisionsHelper" where
  "alloc d h = (length (machines h), h\<lparr>machines := machines h @ [d]\<rparr>)"

definition newActivityDecisionStateMachine ::
  "ScheduleActivityTaskDecisionAttributes \<Rightarrow> decisionsHelper \<Rightarrow> nat \<times> decisionsHelper" where
  "newActivityDecisionStateMachine attr h =
     alloc (newDecisionStateMachineBase activityDecisionStateMachine decisionTypeActivity
              (ActivityId attr) (ScheduleActivityTaskDecision attr)) h"

definition newTimerDecisionStateMachine ::
  "StartTimerDecisionAttributes \<Rightarrow> decisionsHelper \<Rightarrow> nat \<times> decisionsHelper" where
  "newTimerDecisionStateMachine attr h =
     alloc (newDecisionStateMachineBase timerDecisionStateMachine decisionTypeTimer
              (TimerId attr) (StartTimerDecision attr)) h"

definition newChildWorkflowDecisionStateMachine ::
  "StartChildWorkflowExecutionDecisionAttributes \<Rightarrow> decisionsHelper \<Rightarrow> nat \<times> decisionsHelper" where
  "newChildWorkflowDecisionStateMachine attr h =
     alloc (newDecisionStateMachineBase childWorkflowDecisionStateMachine decisionTypeChildWorkflow
              (WorkflowId attr) (StartChildWorkflowExecutionDecision attr)) h"

definition newNaiveDecisionStateMachine ::
  "machineKind \<Rightarrow> decisionType \<Rightarrow> string \<Rightarrow> decision \<Rightarrow> decisionsHelper \<Rightarrow> nat \<times> decisionsHelper" where
  "newNaiveDecisionStateMachine k decisionType i d h =
     alloc (newDecisionStateMachineBase k decisionType i d) h"

definition newMarkerDecisionStateMachine ::
  "string \<Rightarrow> string \<Rightarrow> bytes option \<Rightarrow> decisionsHelper \<Rightarrow> nat \<times> decisionsHelper" where
  "newMarkerDecisionStateMachine i markerName details h =
     newNaiveDecisionStateMachine markerDecisionStateMachine decisionTypeMarker i
       (RecordMarkerDecision markerName details) h"

definition newCancelExternalWorkflowStateMachine ::
  "decision \<Rightarrow> string \<Rightarrow> decisionsHelper \<Rightarrow> nat \<times> decisionsHelper" where
  "newCancelExternalWorkflowStateMachine d cancellationID h =
     newNaiveDecisionStateMachine cancelExternalWorkflowDecisionStateMachine
       decisionTypeCancellation cancellationID d h"

definition newSignalExternalWorkflowStateMachine ::
  "decision \<Rightarrow> string \<Rightarrow> decisionsHelper \<Rightarrow> nat \<times> decisionsHelper" where
  "newSignalExternalWorkflowStateMachine d signalID h =
     newNaiveDecisionStateMachine signalExternalWorkflowDecisionStateMachine
       decisionTypeSignal signalID d h"

definition newUpsertSearchAttributesStateMachine ::
  "(string \<times> bytes) list \<Rightarrow> string \<Rightarrow> decisionsHelper \<Rightarrow> nat \<times> decisionsHelper" where
  "newUpsertSearchAttributesStateMachine attr upsertID h =
     newNaiveDecisionStateMachine upsertSearchAttributesDecisionStateMachine
       decisionTypeUpsertSearchAttributes upsertID
       (UpsertWorkflowSearchAttributesDecision attr) h"

subsection \<open>Methods of decisionStateMachineBase\<close>

text \<open>
  In what follows \<open>d\<close> is the address of the receiver. It always comes from an allocation
  of the same helper, so \<open>machines h ! d\<close> is the Go dereference of a valid pointer.
\<close>

definition getState :: "nat \<Rightarrow> decisionsHelper \<Rightarrow> decisionState" where
  "getState d h = state (machines h ! d)"

definition getID :: "nat \<Rightarrow> decisionsHelper \<Rightarrow> decisionID" where
  "getID d h = ident (machines h ! d)"

definition getData :: "nat \<Rightarrow> decisionsHelper \<Rightarrow> scheduled option" where
  "getData d h = data (machines h ! d)"

text \<open>A write through the pointer \<open>d\<close>: the machine at this address is replaced by \<open>f\<close> of it.\<close>

definition updMachine ::
  "nat \<Rightarrow> (decisionStateMachine \<Rightarrow> decisionStateMachine) \<Rightarrow> decisionsHelper \<Rightarrow> decisionsHelper" where
  "updMachine d f h = h\<lparr>machines := (machines h)[d := f (machines h ! d)]\<rparr>"

definition setData :: "nat \<Rightarrow> scheduled \<Rightarrow> decisionsHelper \<Rightarrow> decisionsHelper" where
  "setData d x h = updMachine d (\<lambda>m. m\<lparr>data := Some x\<rparr>) h"

definition appendHistory :: "nat \<Rightarrow> string \<Rightarrow> decisionsHelper \<Rightarrow> decisionsHelper" where
  "appendHistory d event h = updMachine d (\<lambda>m. m\<lparr>history := history m @ [event]\<rparr>) h"

definition moveState :: "nat \<Rightarrow> decisionState \<Rightarrow> string \<Rightarrow> decisionsHelper \<Rightarrow> decisionsHelper" where
  "moveState d newState event h =
     (let h' = updMachine d
                 (\<lambda>m. m\<lparr>history := history m @ [event, decisionState_String newState],
                        state := newState\<rparr>) h
      in if newState = decisionStateCompleted then
           (case decisions h' (getID d h') of
              Some elem \<Rightarrow>
                h'\<lparr>orderedDecisions := remove1 elem (orderedDecisions h'),
                   decisions := (decisions h')(getID d h' := None)\<rparr>
            | None \<Rightarrow> h')
         else h')"

definition failStateTransition :: "nat \<Rightarrow> string \<Rightarrow> decisionsHelper \<Rightarrow> unit outcome" where
  "failStateTransition d event h =
     (Inl (stateMachineIllegalStatePanic
             (InvalidStateTransition event (getID d h) (getState d h))), h)"

definition base_isDone :: "nat \<Rightarrow> decisionsHelper \<Rightarrow> bool" where
  "base_isDone d h =
     (getState d h = decisionStateCompleted
      \<or> getState d h = decisionStateCompletedAfterCancellationDecisionSent)"

definition base_handleDecisionSent :: "nat \<Rightarrow> decisionsHelper \<Rightarrow> decisionsHelper" where
  "base_handleDecisionSent d h =
     (case getState d h of
        decisionStateCreated \<Rightarrow> moveState d decisionStateDecisionSent eventDecisionSent h
      | _ \<Rightarrow> h)"

definition base_cancel :: "nat \<Rightarrow> decisionsHelper \<Rightarrow> unit outcome" where
  "base_cancel d h =
     (case getState d h of
        decisionStateCompleted \<Rightarrow> (Inr (), h)
      | decisionStateCompletedAfterCancellationDecisionSent \<Rightarrow> (Inr (), h)
      | decisionStateCreated \<Rightarrow> (Inr (), moveState d decisionStateCompleted eventCancel h)
      | decisionStateDecisionSent \<Rightarrow>
          (Inr (), moveState d decisionStateCanceledBeforeInitiated eventCancel h)
      | decisionStateInitiated \<Rightarrow>
          (Inr (), moveState d decisionStateCanceledAfterInitiated eventCancel h)
      | _ \<Rightarrow> failStateTransition d eventCancel h)"

definition base_handleInitiatedEvent :: "nat \<Rightarrow> decisionsHelper \<Rightarrow> unit outcome" where
  "base_handleInitiatedEvent d h =
     (case getState d h of
        decisionStateDecisionSent \<Rightarrow> (Inr (), moveState d decisionStateInitiated eventInitiated h)
      | decisionStateCanceledBeforeInitiated \<Rightarrow>
          (Inr (), moveState d decisionStateCanceledAfterInitiated eventInitiated h)
      | _ \<Rightarrow> failStateTransition d eventInitiated h)"

definition base_handleInitiationFailedEvent :: "nat \<Rightarrow> decisionsHelper \<Rightarrow> unit outcome" where
  "base_handleInitiationFailedEvent d h =
     (case getState d h of
        decisionStateInitiated \<Rightarrow>
          (Inr (), moveState d decisionStateCompleted eventInitiationFailed h)
      | decisionStateDecisionSent \<Rightarrow>
          (Inr (), moveState d decisionStateCompleted eventInitiationFailed h)
      | decisionStateCanceledBeforeInitiated \<Rightarrow>
          (Inr (), moveState d decisionStateCompleted eventInitiationFailed h)
      | _ \<Rightarrow> failStateTransition d eventInitiationFailed h)"

definition base_handleStartedEvent :: "nat \<Rightarrow> decisionsHelper \<Rightarrow> unit outcome" where
  "base_handleStartedEvent d h = (Inr (), appendHistory d eventStarted h)"

definition base_handleCompletionEvent :: "nat \<Rightarrow> decisionsHelper \<Rightarrow> unit outcome" where
  "base_handleCompletionEvent d h =
     (case getState d h of
        decisionStateCanceledAfterInitiated \<Rightarrow>
          (Inr (), moveState d decisionStateCompleted eventCompletion h)
      | decisionStateInitiated \<Rightarrow>
          (Inr (), moveState d decisionStateCompleted eventCompletion h)
      | decisionStateCancellationDecisionSent \<Rightarrow>
          (Inr (), moveState d decisionStateCompletedAfterCancellationDecisionSent
                     eventCompletion h)
      | _ \<Rightarrow> failStateTransition d eventCompletion h)"

definition base_handleCancelInitiatedEvent :: "nat \<Rightarrow> decisionsHelper \<Rightarrow> unit outcome" where
  "base_handleCancelInitiatedEvent d h =
     (let h' = appendHistory d eventCancelInitiated h
      in case getState d h' of
           decisionStateCancellationDecisionSent \<Rightarrow> (Inr (), h')
         | _ \<Rightarrow> failStateTransition d eventCancelInitiated h')"

definition base_handleCancelFailedEvent :: "nat \<Rightarrow> decisionsHelper \<Rightarrow> unit outcome" where
  "base_handleCancelFailedEvent d h =
     (case getState d h of
        decisionStateCompletedAfterCancellationDecisionSent \<Rightarrow>
          (Inr (), moveState d decisionStateCompleted eventCancelFailed h)
      | _ \<Rightarrow> failStateTransition d eventCancelFailed h)"

definition base_handleCanceledEvent :: "nat \<Rightarrow> decisionsHelper \<Rightarrow> unit outcome" where
  "base_handleCanceledEvent d h =
     (case getState d h of
        decisionStateCancellationDecisionSent \<Rightarrow>
          (Inr (), moveState d decisionStateCompleted eventCanceled h)
      | _ \<Rightarrow> failStateTransition d eventCanceled h)"

subsection \<open>Methods of the activity, timer and child workflow machines\<close>

definition activity_getDecision :: "nat \<Rightarrow> decisionsHelper \<Rightarrow> decision option" where
  "activity_getDecision d h =
     (case getState d h of
        decisionStateCreated \<Rightarrow> Some (attributes (machines h ! d))
      | decisionStateCanceledAfterInitiated \<Rightarrow>
          (case attributes (machines h ! d) of
             ScheduleActivityTaskDecision attr \<Rightarrow>
               Some (RequestCancelActivityTaskDecision (ActivityId attr))
           | _ \<Rightarrow> None)
      | _ \<Rightarrow> None)"

definition activity_handleDecisionSent :: "nat \<Rightarrow> decisionsHelper \<Rightarrow> decisionsHelper" where
  "activity_handleDecisionSent d h =
     (case getState d h of
        decisionStateCanceledAfterInitiated \<Rightarrow>
          moveState d decisionStateCancellationDecisionSent eventDecisionSent h
      | _ \<Rightarrow> base_handleDecisionSent d h)"

definition activity_handleCancelFailedEvent :: "nat \<Rightarrow> decisionsHelper \<Rightarrow> unit outcome" where
  "activity_handleCancelFailedEvent d h =
     (case getState d h of
        decisionStateCancellationDecisionSent \<Rightarrow>
          (Inr (), moveState d decisionStateInitiated eventCancelFailed h)
      | _ \<Rightarrow> base_handleCancelFailedEvent d h)"

definition timer_cancel :: "nat \<Rightarrow> decisionsHelper \<Rightarrow> unit outcome" where
  "timer_cancel d h =
     base_cancel d (updMachine d (\<lambda>m. m\<lparr>canceled := True\<rparr>) h)"

definition timer_isDone :: "nat \<Rightarrow> decisionsHelper \<Rightarrow> bool" where
  "timer_isDone d h = (getState d h = decisionStateCompleted \<or> canceled (machines h ! d))"

definition timer_handleDecisionSent :: "nat \<Rightarrow> decisionsHelper \<Rightarrow> decisionsHelper" where
  "timer_handleDecisionSent d h =
     (case getState d h of
        decisionStateCanceledAfterInitiated \<Rightarrow>
          moveState d decisionStateCancellationDecisionSent eventDecisionSent h
      | _ \<Rightarrow> base_handleDecisionSent d h)"

definition timer_handleCancelFailedEvent :: "nat \<Rightarrow> decisionsHelper \<Rightarrow> unit outcome" where
  "timer_handleCancelFailedEvent d h =
     (case getState d h of
        decisionStateCancellationDecisionSent \<Rightarrow>
          (Inr (), moveState d decisionStateInitiated eventCancelFailed h)
      | _ \<Rightarrow> base_handleCancelFailedEvent d h)"

definition timer_getDecision :: "nat \<Rightarrow> decisionsHelper \<Rightarrow> decision option" where
  "timer_getDecision d h =
     (case getState d h of
        decisionStateCreated \<Rightarrow> Some (attributes (machines h ! d))
      | decisionStateCanceledAfterInitiated \<Rightarrow>
          (case attributes (machines h ! d) of
             StartTimerDecision attr \<Rightarrow> Some (CancelTimerDecision (TimerId attr))
           | _ \<Rightarrow> None)
      | _ \<Rightarrow> None)"

definition childWorkflow_getDecision :: "nat \<Rightarrow> decisionsHelper \<Rightarrow> decision option" where
  "childWorkflow_getDecision d h =
     (case getState d h of
        decisionStateCreated \<Rightarrow> Some (attributes (machines h ! d))
      | decisionStateCanceledAfterStarted \<Rightarrow>
          (case attributes (machines h ! d) of
             StartChildWorkflowExecutionDecision attr \<Rightarrow>
               Some (RequestCancelExternalWorkflowExecutionDecision
                       (Domain attr) (WorkflowId attr) [] [] True)
           | _ \<Rightarrow> None)
      | _ \<Rightarrow> None)"

definition childWorkflow_handleDecisionSent :: "nat \<Rightarrow> decisionsHelper \<Rightarrow> decisionsHelper" where
  "childWorkflow_handleDecisionSent d h =
     (case getState d h of
        decisionStateCanceledAfterStarted \<Rightarrow>
          moveState d decisionStateCancellationDecisionSent eventDecisionSent h
      | _ \<Rightarrow> base_handleDecisionSent d h)"

definition childWorkflow_handleStartedEvent :: "nat \<Rightarrow> decisionsHelper \<Rightarrow> unit outcome" where
  "childWorkflow_handleStartedEvent d h =
     (case getState d h of
        decisionStateInitiated \<Rightarrow> (Inr (), moveState d decisionStateStarted eventStarted h)
      | decisionStateCanceledAfterInitiated \<Rightarrow>
          (Inr (), moveState d decisionStateCanceledAfterStarted eventStarted h)
      | _ \<Rightarrow> base_handleStartedEvent d h)"

definition childWorkflow_handleCancelFailedEvent :: "nat \<Rightarrow> decisionsHelper \<Rightarrow> unit outcome" where
  "childWorkflow_handleCancelFailedEvent d h =
     (case getState d h of
        decisionStateCancellationDecisionSent \<Rightarrow>
          (Inr (), moveState d decisionStateStarted eventCancelFailed h)
      | _ \<Rightarrow> base_handleCancelFailedEvent d h)"

definition childWorkflow_cancel :: "nat \<Rightarrow> decisionsHelper \<Rightarrow> unit outcome" where
  "childWorkflow_cancel d h =
     (case getState d h of
        decisionStateStarted \<Rightarrow>
          (Inr (), moveState d decisionStateCanceledAfterStarted eventCancel h)
      | _ \<Rightarrow> base_cancel d h)"

definition childWorkflow_handleCanceledEvent :: "nat \<Rightarrow> decisionsHelper \<Rightarrow> unit outcome" where
  "childWorkflow_handleCanceledEvent d h =
     (case getState d h of
        decisionStateStarted \<Rightarrow> (Inr (), moveState d decisionStateCompleted eventCanceled h)
      | _ \<Rightarrow> base_handleCanceledEvent d h)"

definition childWorkflow_handleCompletionEvent :: "nat \<Rightarrow> decisionsHelper \<Rightarrow> unit outcome" where
  "childWorkflow_handleCompletionEvent d h =
     (case getState d h of
        decisionStateStarted \<Rightarrow> (Inr (), moveState d decisionStateCompleted eventCompletion h)
      | decisionStateCanceledAfterStarted \<Rightarrow>
          (Inr (), moveState d decisionStateCompleted eventCompletion h)
      | _ \<Rightarrow> base_handleCompletionEvent d h)"

subsection \<open>Methods of the naive machines\<close>

definition naive_getDecision :: "nat \<Rightarrow> decisionsHelper \<Rightarrow> decision option" where
  "naive_getDecision d h =
     (case getState d h of
        decisionStateCreated \<Rightarrow> Some (attributes (machines h ! d))
      | _ \<Rightarrow> None)"

definition naive_unsupported :: "decisionsHelper \<Rightarrow> unit outcome" where
  "naive_unsupported h = (Inl (PanicString ''unsupported operation''), h)"

definition cancelExternalWorkflow_handleInitiatedEvent ::
  "nat \<Rightarrow> decisionsHelper \<Rightarrow> unit outcome" where
  "cancelExternalWorkflow_handleInitiatedEvent d h =
     (case getState d h of
        decisionStateDecisionSent \<Rightarrow> (Inr (), moveState d decisionStateInitiated eventInitiated h)
      | _ \<Rightarrow> failStateTransition d eventInitiated h)"

definition cancelExternalWorkflow_handleCompletionEvent ::
  "nat \<Rightarrow> decisionsHelper \<Rightarrow> unit outcome" where
  "cancelExternalWorkflow_handleCompletionEvent d h =
     (case getState d h of
        decisionStateInitiated \<Rightarrow> (Inr (), moveState d decisionStateCompleted eventCompletion h)
      | _ \<Rightarrow> failStateTransition d eventCompletion h)"

definition signalExternalWorkflow_handleInitiatedEvent ::
  "nat \<Rightarrow> decisionsHelper \<Rightarrow> unit outcome" where
  "signalExternalWorkflow_handleInitiatedEvent d h =
     (case getState d h of
        decisionStateDecisionSent \<Rightarrow> (Inr (), moveState d decisionStateInitiated eventInitiated h)
      | _ \<Rightarrow> failStateTransition d eventInitiated h)"

definition signalExternalWorkflow_handleCompletionEvent ::
  "nat \<Rightarrow> decisionsHelper \<Rightarrow> unit outcome" where
  "signalExternalWorkflow_handleCompletionEvent d h =
     (case getState d h of
        decisionStateInitiated \<Rightarrow> (Inr (), moveState d decisionStateCompleted eventCompletion h)
      | _ \<Rightarrow> failStateTransition d eventCompletion h)"

definition marker_handleDecisionSent :: "nat \<Rightarrow> decisionsHelper \<Rightarrow> decisionsHelper" where
  "marker_handleDecisionSent d h =
     (case getState d h of
        decisionStateCreated \<Rightarrow> moveState d decisionStateCompleted eventDecisionSent h
      | _ \<Rightarrow> h)"

definition upsertSearchAttributes_handleDecisionSent ::
  "nat \<Rightarrow> decisionsHelper \<Rightarrow> decisionsHelper" where
  "upsertSearchAttributes_handleDecisionSent d h =
     (case getState d h of
        decisionStateCreated \<Rightarrow> moveState d decisionStateCompleted eventDecisionSent h
      | _ \<Rightarrow> h)"

subsection \<open>The decisionStateMachine interface\<close>

text \<open>
  A call through the interface runs the method of the receiver's struct type; where a
  struct does not define the method, Go promotes the one of the struct it embeds.
\<close>

definition isDone :: "nat \<Rightarrow> decisionsHelper \<Rightarrow> bool" where
  "isDone d h =
     (case kind (machines h ! d) of
        timerDecisionStateMachine \<Rightarrow> timer_isDone d h
      | _ \<Rightarrow> base_isDone d h)"

definition getDecision_of :: "nat \<Rightarrow> decisionsHelper \<Rightarrow> decision option" where
  "getDecision_of d h =
     (case kind (machines h ! d) of
        activityDecisionStateMachine \<Rightarrow> activity_getDecision d h
      | timerDecisionStateMachine \<Rightarrow> timer_getDecision d h
      | childWorkflowDecisionStateMachine \<Rightarrow> childWorkflow_getDecision d h
      | _ \<Rightarrow> naive_getDecision d h)"

definition cancel :: "nat \<Rightarrow> decisionsHelper \<Rightarrow> unit outcome" where
  "cancel d h =
     (case kind (machines h ! d) of
        activityDecisionStateMachine \<Rightarrow> base_cancel d h
      | timerDecisionStateMachine \<Rightarrow> timer_cancel d h
      | childWorkflowDecisionStateMachine \<Rightarrow> childWorkflow_cancel d h
      | _ \<Rightarrow> naive_unsupported h)"

definition handleStartedEvent :: "nat \<Rightarrow> decisionsHelper \<Rightarrow> unit outcome" where
  "handleStartedEvent d h =
     (case kind (machines h ! d) of
        activityDecisionStateMachine \<Rightarrow> base_handleStartedEvent d h
      | timerDecisionStateMachine \<Rightarrow> base_handleStartedEvent d h
      | childWorkflowDecisionStateMachine \<Rightarrow> childWorkflow_handleStartedEvent d h
      | _ \<Rightarrow> naive_unsupported h)"

definition handleCancelInitiatedEvent :: "nat \<Rightarrow> decisionsHelper \<Rightarrow> unit outcome" where
  "handleCancelInitiatedEvent d h =
     (case kind (machines h ! d) of
        activityDecisionStateMachine \<Rightarrow> base_handleCancelInitiatedEvent d h
      | timerDecisionStateMachine \<Rightarrow> base_handleCancelInitiatedEvent d h
      | childWorkflowDecisionStateMachine \<Rightarrow> base_handleCancelInitiatedEvent d h
      | _ \<Rightarrow> naive_unsupported h)"

definition handleCanceledEvent :: "nat \<Rightarrow> decisionsHelper \<Rightarrow> unit outcome" where
  "handleCanceledEvent d h =
     (case kind (machines h ! d) of
        activityDecisionStateMachine \<Rightarrow> base_handleCanceledEvent d h
      | timerDecisionStateMachine \<Rightarrow> base_handleCanceledEvent d h
      | childWorkflowDecisionStateMachine \<Rightarrow> childWorkflow_handleCanceledEvent d h
      | _ \<Rightarrow> naive_unsupported h)"

definition handleCancelFailedEvent :: "nat \<Rightarrow> decisionsHelper \<Rightarrow> unit outcome" where
  "handleCancelFailedEvent d h =
     (case kind (machines h ! d) of
        activityDecisionStateMachine \<Rightarrow> activity_handleCancelFailedEvent d h
      | timerDecisionStateMachine \<Rightarrow> timer_handleCancelFailedEvent d h
      | childWorkflowDecisionStateMachine \<Rightarrow> childWorkflow_handleCancelFailedEvent d h
      | _ \<Rightarrow> naive_unsupported h)"

definition handleCompletionEvent :: "nat \<Rightarrow> decisionsHelper \<Rightarrow> unit outcome" where
  "handleCompletionEvent d h =
     (case kind (machines h ! d) of
        activityDecisionStateMachine \<Rightarrow> base_handleCompletionEvent d h
      | timerDecisionStateMachine \<Rightarrow> base_handleCompletionEvent d h
      | childWorkflowDecisionStateMachine \<Rightarrow> childWorkflow_handleCompletionEvent d h
      | cancelExternalWorkflowDecisionStateMachine \<Rightarrow>
          cancelExternalWorkflow_handleCompletionEvent d h
      | signalExternalWorkflowDecisionStateMachine \<Rightarrow>
          signalExternalWorkflow_handleCompletionEvent d h
      | _ \<Rightarrow> naive_unsupported h)"

definition handleInitiationFailedEvent :: "nat \<Rightarrow> decisionsHelper \<Rightarrow> unit outcome" where
  "handleInitiationFailedEvent d h =
     (case kind (machines h ! d) of
        activityDecisionStateMachine \<Rightarrow> base_handleInitiationFailedEvent d h
      | timerDecisionStateMachine \<Rightarrow> base_handleInitiationFailedEvent d h
      | childWorkflowDecisionStateMachine \<Rightarrow> base_handleInitiationFailedEvent d h
      | _ \<Rightarrow> naive_unsupported h)"

definition handleInitiatedEvent :: "nat \<Rightarrow> decisionsHelper \<Rightarrow> unit outcome" where
  "handleInitiatedEvent d h =
     (case kind (machines h ! d) of
        activityDecisionStateMachine \<Rightarrow> base_handleInitiatedEvent d h
      | timerDecisionStateMachine \<Rightarrow> base_handleInitiatedEvent d h
      | childWorkflowDecisionStateMachine \<Rightarrow> base_handleInitiatedEvent d h
      | cancelExternalWorkflowDecisionStateMachine \<Rightarrow>
          cancelExternalWorkflow_handleInitiatedEvent d h
      | signalExternalWorkflowDecisionStateMachine \<Rightarrow>
          signalExternalWorkflow_handleInitiatedEvent d h
      | _ \<Rightarrow> naive_unsupported h)"

definition handleDecisionSent :: "nat \<Rightarrow> decisionsHelper \<Rightarrow> decisionsHelper" where
  "handleDecisionSent d h =
     (case kind (machines h ! d) of
        activityDecisionStateMachine \<Rightarrow> activity_handleDecisionSent d h
      | timerDecisionStateMachine \<Rightarrow> timer_handleDecisionSent d h
      | childWorkflowDecisionStateMachine \<Rightarrow> childWorkflow_handleDecisionSent d h
      | cancelExternalWorkflowDecisionStateMachine \<Rightarrow> base_handleDecisionSent d h
      | signalExternalWorkflowDecisionStateMachine \<Rightarrow> base_handleDecisionSent d h
      | markerDecisionStateMachine \<Rightarrow> marker_handleDecisionSent d h
      | upsertSearchAttributesDecisionStateMachine \<Rightarrow>
          upsertSearchAttributes_handleDecisionSent d h)"

section \<open>The decisions helper\<close>

text \<open>
  A small combinator for sequencing operations that may panic: the second operation runs
  on the state left by the first, and a panic of the first is passed on with the state in
  which it was raised.
\<close>

definition andThen ::
  "('s \<Rightarrow> (panic + 'a) \<times> 's) \<Rightarrow> ('a \<Rightarrow> 's \<Rightarrow> (panic + 'b) \<times> 's) \<Rightarrow> 's \<Rightarrow> (panic + 'b) \<times> 's" where
  "andThen f g s = (case f s of (Inl p, s') \<Rightarrow> (Inl p, s') | (Inr a, s') \<Rightarrow> g a s')"

definition newDecisionsHelper :: decisionsHelper where
  "newDecisionsHelper =
     \<lparr>machines = [], orderedDecisions = [], decisions = (\<lambda>_. None),
      scheduledEventIDToActivityID = (\<lambda>_. None),
      scheduledEventIDToCancellationID = (\<lambda>_. None),
      scheduledEventIDToSignalID = (\<lambda>_. None)\<rparr>"

text \<open>
  \<open>list.MoveToBack\<close> and \<open>list.Remove\<close> of container/list do nothing for an element that
  is not in the list.
\<close>

definition MoveToBack :: "nat \<Rightarrow> nat list \<Rightarrow> nat list" where
  "MoveToBack e l = (if e \<in> set l then remove1 e l @ [e] else l)"

definition getDecision :: "decisionID \<Rightarrow> decisionsHelper \<Rightarrow> nat outcome" where
  "getDecision i h =
     (case decisions h i of
        None \<Rightarrow> (Inl (stateMachineIllegalStatePanic (UnknownDecision i)), h)
      | Some decision \<Rightarrow>
          (Inr decision, h\<lparr>orderedDecisions := MoveToBack decision (orderedDecisions h)\<rparr>))"

definition addDecision :: "nat \<Rightarrow> decisionsHelper \<Rightarrow> unit outcome" where
  "addDecision decision h =
     (case decisions h (getID decision h) of
        Some _ \<Rightarrow> (Inl (stateMachineIllegalStatePanic (DuplicateDecision (getID decision h))), h)
      | None \<Rightarrow>
          (Inr (), h\<lparr>orderedDecisions := orderedDecisions h @ [decision],
                     decisions := (decisions h)(getID decision h \<mapsto> decision)\<rparr>))"

text \<open>The common shape of the helper's creating operations: allocate, add, return.\<close>

definition addNew :: "nat \<times> decisionsHelper \<Rightarrow> nat outcome" where
  "addNew p = (case p of (decision, h) \<Rightarrow>
     andThen (addDecision decision) (\<lambda>_ h'. (Inr decision, h')) h)"

text \<open>The common shape of the helper's event operations: look up, apply, return.\<close>

definition withDecision ::
  "decisionID \<Rightarrow> (nat \<Rightarrow> decisionsHelper \<Rightarrow> unit outcome) \<Rightarrow> decisionsHelper \<Rightarrow> nat outcome" where
  "withDecision i f h =
     andThen (getDecision i) (\<lambda>decision. andThen (f decision) (\<lambda>_ h'. (Inr decision, h'))) h"

definition scheduleActivityTask ::
  "ScheduleActivityTaskDecisionAttributes \<Rightarrow> decisionsHelper \<Rightarrow> nat outcome" where
  "scheduleActivityTask attr h = addNew (newActivityDecisionStateMachine attr h)"

definition requestCancelActivityTask :: "string \<Rightarrow> decisionsHelper \<Rightarrow> nat outcome" where
  "requestCancelActivityTask activityID h =
     withDecision (makeDecisionID decisionTypeActivity activityID) cancel h"

definition handleActivityTaskClosed :: "string \<Rightarrow> decisionsHelper \<Rightarrow> nat outcome" where
  "handleActivityTaskClosed activityID h =
     withDecision (makeDecisionID decisionTypeActivity activityID) handleCompletionEvent h"

definition handleActivityTaskScheduled ::
  "64 word \<Rightarrow> string \<Rightarrow> decisionsHelper \<Rightarrow> nat outcome" where
  "handleActivityTaskScheduled scheduledEventID activityID h =
     withDecision (makeDecisionID decisionTypeActivity activityID) handleInitiatedEvent
       (h\<lparr>scheduledEventIDToActivityID :=
            (scheduledEventIDToActivityID h)(scheduledEventID \<mapsto> activityID)\<rparr>)"

definition handleActivityTaskCancelRequested :: "string \<Rightarrow> decisionsHelper \<Rightarrow> nat outcome" where
  "handleActivityTaskCancelRequested activityID h =
     withDecision (makeDecisionID decisionTypeActivity activityID) handleCancelInitiatedEvent h"

definition handleActivityTaskCanceled :: "string \<Rightarrow> decisionsHelper \<Rightarrow> nat outcome" where
  "handleActivityTaskCanceled activityID h =
     withDecision (makeDecisionID decisionTypeActivity activityID) handleCanceledEvent h"

definition handleRequestCancelActivityTaskFailed ::
  "string \<Rightarrow> decisionsHelper \<Rightarrow> nat outcome" where
  "handleRequestCancelActivityTaskFailed activityID h =
     withDecision (makeDecisionID decisionTypeActivity activityID) handleCancelFailedEvent h"

text \<open>
  \<open>getActivityID\<close> takes the scheduled event ID out of the four closing activity events and
  panics for any other event; here it receives that ID, or \<open>None\<close> for another event.
\<close>

definition getActivityID :: "64 word option \<Rightarrow> decisionsHelper \<Rightarrow> string outcome" where
  "getActivityID ev h =
     (case ev of
        None \<Rightarrow> (Inl (stateMachineIllegalStatePanic UnexpectedEventType), h)
      | Some scheduledEventID \<Rightarrow>
          (case scheduledEventIDToActivityID h scheduledEventID of
             None \<Rightarrow>
               (Inl (stateMachineIllegalStatePanic (UnableToFindActivityID scheduledEventID)), h)
           | Some activityID \<Rightarrow> (Inr activityID, h)))"

subsection \<open>Formatting with \<open>%v\<close> and \<open>%d\<close>\<close>

definition digitChar :: "nat \<Rightarrow> char" where
  "digitChar n = ''0123456789'' ! n"

fun natToString :: "nat \<Rightarrow> string" where
  "natToString n =
     (if n < 10 then [digitChar n] else natToString (n div 10) @ [digitChar (n mod 10)])"

declare natToString.simps [simp del]

definition intToString :: "int \<Rightarrow> string" where
  "intToString i = (if i < 0 then CHR ''-'' # natToString (nat (- i)) else natToString (nat i))"

subsection \<open>Markers, child workflows, external cancellation and signals, timers\<close>

datatype error =
    ErrCanceled
  | CanceledError "bytes option"
  | TimeoutError nat "bytes option"
  | ConstructedError string "bytes option"
  | WorkflowExecutionAlreadyStartedError
  | TerminatedError
  | UnknownExternalWorkflowExecutionError
  | Errorf string
  | ErrSearchAttributesNotSet
  | ConverterError string
  | UserError string
  | WorkflowPanicError panic

text \<open>
  \<open>recordVersionMarker\<close> encodes the change ID and the version with the data converter,
  an interface implemented outside the helper; \<open>encoded\<close> is what \<open>encodeArgs\<close> returned.
\<close>

definition recordVersionMarker ::
  "string \<Rightarrow> (error + bytes) \<Rightarrow> decisionsHelper \<Rightarrow> nat outcome" where
  "recordVersionMarker changeID encoded h =
     (let markerID = versionMarkerName @ ''_'' @ changeID
      in case encoded of
           Inl err \<Rightarrow> (Inl (PanicError ''encodeArgs''), h)
         | Inr details \<Rightarrow>
             addNew (newMarkerDecisionStateMachine markerID versionMarkerName (Some details) h))"

definition recordSideEffectMarker ::
  "32 word \<Rightarrow> bytes option \<Rightarrow> decisionsHelper \<Rightarrow> nat outcome" where
  "recordSideEffectMarker sideEffectID dat h =
     (let markerID = sideEffectMarkerName @ ''_'' @ intToString (sint sideEffectID)
      in addNew (newMarkerDecisionStateMachine markerID sideEffectMarkerName dat h))"

definition recordLocalActivityMarker ::
  "string \<Rightarrow> bytes option \<Rightarrow> decisionsHelper \<Rightarrow> nat outcome" where
  "recordLocalActivityMarker activityID result h =
     (let markerID = localActivityMarkerName @ ''_'' @ activityID
      in addNew (newMarkerDecisionStateMachine markerID localActivityMarkerName result h))"

definition recordMutableSideEffectMarker ::
  "string \<Rightarrow> bytes option \<Rightarrow> decisionsHelper \<Rightarrow> nat outcome" where
  "recordMutableSideEffectMarker mutableSideEffectID dat h =
     (let markerID = mutableSideEffectMarkerName @ ''_'' @ mutableSideEffectID
      in addNew (newMarkerDecisionStateMachine markerID mutableSideEffectMarkerName dat h))"

definition startChildWorkflowExecution ::
  "StartChildWorkflowExecutionDecisionAttributes \<Rightarrow> decisionsHelper \<Rightarrow> nat outcome" where
  "startChildWorkflowExecution attr h = addNew (newChildWorkflowDecisionStateMachine attr h)"

definition handleStartChildWorkflowExecutionInitiated ::
  "string \<Rightarrow> decisionsHelper \<Rightarrow> nat outcome" where
  "handleStartChildWorkflowExecutionInitiated workflowID h =
     withDecision (makeDecisionID decisionTypeChildWorkflow workflowID) handleInitiatedEvent h"

definition handleStartChildWorkflowExecutionFailed ::
  "string \<Rightarrow> decisionsHelper \<Rightarrow> nat outcome" where
  "handleStartChildWorkflowExecutionFailed workflowID h =
     withDecision (makeDecisionID decisionTypeChildWorkflow workflowID)
       handleInitiationFailedEvent h"

definition requestCancelExternalWorkflowExecution ::
  "string \<Rightarrow> string \<Rightarrow> string \<Rightarrow> string \<Rightarrow> bool \<Rightarrow> decisionsHelper \<Rightarrow> nat outcome" where
  "requestCancelExternalWorkflowExecution domain workflowID runID cancellationID
       childWorkflowOnly h =
     (if childWorkflowOnly then
        (if length cancellationID \<noteq> 0 then
           (Inl (PanicString ''cancellation on child workflow should not use cancellation ID''), h)
         else if length runID \<noteq> 0 then
           (Inl (PanicString ''cancellation on child workflow should not use run ID''), h)
         else withDecision (makeDecisionID decisionTypeChildWorkflow workflowID) cancel h)
      else if length cancellationID = 0 then
        (Inl (PanicString ''cancellation on external workflow should use cancellation ID''), h)
      else
        addNew (newCancelExternalWorkflowStateMachine
                  (RequestCancelExternalWorkflowExecutionDecision domain workflowID runID
                     cancellationID False)
                  cancellationID h))"

definition isCancelExternalWorkflowEventForChildWorkflow :: "string \<Rightarrow> bool" where
  "isCancelExternalWorkflowEventForChildWorkflow cancellationID = (length cancellationID = 0)"

definition handleRequestCancelExternalWorkflowExecutionInitiated ::
  "64 word \<Rightarrow> string \<Rightarrow> string \<Rightarrow> decisionsHelper \<Rightarrow> nat outcome" where
  "handleRequestCancelExternalWorkflowExecutionInitiated initiatedeventID workflowID
       cancellationID h =
     (if isCancelExternalWorkflowEventForChildWorkflow cancellationID then
        withDecision (makeDecisionID decisionTypeChildWorkflow workflowID)
          handleCancelInitiatedEvent h
      else
        withDecision (makeDecisionID decisionTypeCancellation cancellationID)
          handleInitiatedEvent
          (h\<lparr>scheduledEventIDToCancellationID :=
               (scheduledEventIDToCancellationID h)(initiatedeventID \<mapsto> cancellationID)\<rparr>))"

definition handleExternalWorkflowExecutionCancelRequested ::
  "64 word \<Rightarrow> string \<Rightarrow> decisionsHelper \<Rightarrow> (bool \<times> nat) outcome" where
  "handleExternalWorkflowExecutionCancelRequested initiatedeventID workflowID h =
     (case scheduledEventIDToCancellationID h initiatedeventID of
        None \<Rightarrow>
          andThen (getDecision (makeDecisionID decisionTypeChildWorkflow workflowID))
            (\<lambda>decision h'. (Inr (False, decision), h')) h
      | Some cancellationID \<Rightarrow>
          andThen (withDecision (makeDecisionID decisionTypeCancellation cancellationID)
                     handleCompletionEvent)
            (\<lambda>decision h'. (Inr (True, decision), h')) h)"

definition handleRequestCancelExternalWorkflowExecutionFailed ::
  "64 word \<Rightarrow> string \<Rightarrow> decisionsHelper \<Rightarrow> (bool \<times> nat) outcome" where
  "handleRequestCancelExternalWorkflowExecutionFailed initiatedeventID workflowID h =
     (case scheduledEventIDToCancellationID h initiatedeventID of
        None \<Rightarrow>
          andThen (withDecision (makeDecisionID decisionTypeChildWorkflow workflowID)
                     handleCancelFailedEvent)
            (\<lambda>decision h'. (Inr (False, decision), h')) h
      | Some cancellationID \<Rightarrow>
          andThen (withDecision (makeDecisionID decisionTypeCancellation cancellationID)
                     handleCompletionEvent)
            (\<lambda>decision h'. (Inr (True, decision), h')) h)"

definition signalExternalWorkflowExecution ::
  "string \<Rightarrow> string \<Rightarrow> string \<Rightarrow> string \<Rightarrow> bytes option \<Rightarrow> string \<Rightarrow> bool \<Rightarrow> decisionsHelper
     \<Rightarrow> nat outcome" where
  "signalExternalWorkflowExecution domain workflowID runID signalName input signalID
       childWorkflowOnly h =
     addNew (newSignalExternalWorkflowStateMachine
               (SignalExternalWorkflowExecutionDecision domain workflowID runID signalName input
                  signalID childWorkflowOnly)
               signalID h)"

definition upsertSearchAttributes ::
  "string \<Rightarrow> (string \<times> bytes) list \<Rightarrow> decisionsHelper \<Rightarrow> nat outcome" where
  "upsertSearchAttributes upsertID searchAttr h =
     addNew (newUpsertSearchAttributesStateMachine searchAttr upsertID h)"

definition handleSignalExternalWorkflowExecutionInitiated ::
  "64 word \<Rightarrow> string \<Rightarrow> decisionsHelper \<Rightarrow> nat outcome" where
  "handleSignalExternalWorkflowExecutionInitiated initiatedEventID signalID h =
     withDecision (makeDecisionID decisionTypeSignal signalID) handleInitiatedEvent
       (h\<lparr>scheduledEventIDToSignalID :=
            (scheduledEventIDToSignalID h)(initiatedEventID \<mapsto> signalID)\<rparr>)"

definition getSignalID :: "64 word \<Rightarrow> decisionsHelper \<Rightarrow> string outcome" where
  "getSignalID initiatedEventID h =
     (case scheduledEventIDToSignalID h initiatedEventID of
        None \<Rightarrow> (Inl (PanicString ''unable to find signal ID''), h)
      | Some signalID \<Rightarrow> (Inr signalID, h))"

definition handleSignalExternalWorkflowExecutionCompleted ::
  "64 word \<Rightarrow> decisionsHelper \<Rightarrow> nat outcome" where
  "handleSignalExternalWorkflowExecutionCompleted initiatedEventID h =
     andThen (getSignalID initiatedEventID)
       (\<lambda>signalID. withDecision (makeDecisionID decisionTypeSignal signalID)
                      handleCompletionEvent) h"

definition handleSignalExternalWorkflowExecutionFailed ::
  "64 word \<Rightarrow> decisionsHelper \<Rightarrow> nat outcome" where
  "handleSignalExternalWorkflowExecutionFailed initiatedEventID h =
     andThen (getSignalID initiatedEventID)
       (\<lambda>signalID. withDecision (makeDecisionID decisionTypeSignal signalID)
                      handleCompletionEvent) h"

definition startTimer :: "StartTimerDecisionAttributes \<Rightarrow> decisionsHelper \<Rightarrow> nat outcome" where
  "startTimer attr h = addNew (newTimerDecisionStateMachine attr h)"

definition cancelTimer :: "string \<Rightarrow> decisionsHelper \<Rightarrow> nat outcome" where
  "cancelTimer timerID h = withDecision (makeDecisionID decisionTypeTimer timerID) cancel h"

definition handleTimerClosed :: "string \<Rightarrow> decisionsHelper \<Rightarrow> nat outcome" where
  "handleTimerClosed timerID h =
     withDecision (makeDecisionID decisionTypeTimer timerID) handleCompletionEvent h"

definition handleTimerStarted :: "string \<Rightarrow> decisionsHelper \<Rightarrow> nat outcome" where
  "handleTimerStarted timerID h =
     withDecision (makeDecisionID decisionTypeTimer timerID) handleInitiatedEvent h"

definition handleTimerCanceled :: "string \<Rightarrow> decisionsHelper \<Rightarrow> nat outcome" where
  "handleTimerCanceled timerID h =
     withDecision (makeDecisionID decisionTypeTimer timerID) handleCanceledEvent h"

definition handleCancelTimerFailed :: "string \<Rightarrow> decisionsHelper \<Rightarrow> nat outcome" where
  "handleCancelTimerFailed timerID h =
     withDecision (makeDecisionID decisionTypeTimer timerID) handleCancelFailedEvent h"

definition handleChildWorkflowExecutionStarted :: "string \<Rightarrow> decisionsHelper \<Rightarrow> nat outcome" where
  "handleChildWorkflowExecutionStarted workflowID h =
     withDecision (makeDecisionID decisionTypeChildWorkflow workflowID) handleStartedEvent h"

definition handleChildWorkflowExecutionClosed :: "string \<Rightarrow> decisionsHelper \<Rightarrow> nat outcome" where
  "handleChildWorkflowExecutionClosed workflowID h =
     withDecision (makeDecisionID decisionTypeChildWorkflow workflowID) handleCompletionEvent h"

definition handleChildWorkflowExecutionCanceled :: "string \<Rightarrow> decisionsHelper \<Rightarrow> nat outcome" where
  "handleChildWorkflowExecutionCanceled workflowID h =
     withDecision (makeDecisionID decisionTypeChildWorkflow workflowID) handleCanceledEvent h"

subsection \<open>Collecting the pending decisions\<close>

text \<open>
  The loop of \<open>getDecisions\<close> walks the list from the front; it reads the successor of the
  current element before it processes the element, and processing an element unlinks at
  most that element (the helper keeps, for every element of the list, the map entry of
  the machine's ID pointing at this element: see \<open>wf_helper\<close> below). The walk therefore
  visits the elements that were in the list when the loop started, in their order.
\<close>

definition getDecisionsBody ::
  "bool \<Rightarrow> nat \<Rightarrow> decisionsHelper \<Rightarrow> decision option \<times> decisionsHelper" where
  "getDecisionsBody markAsSent cur h =
     (let decision = getDecision_of cur h;
          h1 = (if markAsSent then handleDecisionSent cur h else h);
          h2 = (if getState cur h1 = decisionStateCompleted
                then h1\<lparr>orderedDecisions := remove1 cur (orderedDecisions h1),
                        decisions := (decisions h1)(getID cur h1 := None)\<rparr>
                else h1)
      in (decision, h2))"

fun getDecisionsLoop ::
  "bool \<Rightarrow> nat list \<Rightarrow> decisionsHelper \<Rightarrow> decision list \<times> decisionsHelper" where
  "getDecisionsLoop markAsSent [] h = ([], h)"
| "getDecisionsLoop markAsSent (cur # rest) h =
     (let b = getDecisionsBody markAsSent cur h;
          r = getDecisionsLoop markAsSent rest (snd b)
      in ((case fst b of None \<Rightarrow> fst r | Some x \<Rightarrow> x # fst r), snd r))"

definition getDecisions :: "bool \<Rightarrow> decisionsHelper \<Rightarrow> decision list \<times> decisionsHelper" where
  "getDecisions markAsSent h = getDecisionsLoop markAsSent (orderedDecisions h) h"

text \<open>
  Well-formedness of a helper: the list holds allocated machines without repetition, and
  the map sends exactly the IDs of these machines to their list elements.
\<close>

definition wf_helper :: "decisionsHelper \<Rightarrow> bool" where
  "wf_helper h \<longleftrightarrow>
     distinct (orderedDecisions h)
     \<and> (\<forall>d \<in> set (orderedDecisions h).
          d < length (machines h) \<and> decisions h (ident (machines h ! d)) = Some d)
     \<and> (\<forall>i d. decisions h i = Some d \<longrightarrow>
          d \<in> set (orderedDecisions h) \<and> ident (machines h ! d) = i)"

subsection \<open>Devices for stating properties of the state machines\<close>

text \<open>
  \<open>frame h h'\<close>: going from \<open>h\<close> to \<open>h'\<close> allocates nothing and leaves, for every machine,
  its struct type, ID, attributes and data as they are, and keeps a timer's \<open>canceled\<close>
  flag once it is set.
\<close>

definition frame :: "decisionsHelper \<Rightarrow> decisionsHelper \<Rightarrow> bool" where
  "frame h h' \<longleftrightarrow>
     length (machines h') = length (machines h)
     \<and> (\<forall>d. kind (machines h' ! d) = kind (machines h ! d)
            \<and> ident (machines h' ! d) = ident (machines h ! d)
            \<and> attributes (machines h' ! d) = attributes (machines h ! d)
            \<and> data (machines h' ! d) = data (machines h ! d)
            \<and> (canceled (machines h ! d) \<longrightarrow> canceled (machines h' ! d)))"

text \<open>
  The state-changing methods of the interface, as values, so that a theorem can speak
  about any sequence of calls on any machines. A call that panics leaves the state it
  reached.
\<close>

datatype machineCall =
    CallCancel | CallHandleStartedEvent | CallHandleCancelInitiatedEvent
  | CallHandleCanceledEvent | CallHandleCancelFailedEvent | CallHandleCompletionEvent
  | CallHandleInitiationFailedEvent | CallHandleInitiatedEvent | CallHandleDecisionSent

fun applyCall :: "machineCall \<Rightarrow> nat \<Rightarrow> decisionsHelper \<Rightarrow> decisionsHelper" where
  "applyCall CallCancel d h = snd (cancel d h)"
| "applyCall CallHandleStartedEvent d h = snd (handleStartedEvent d h)"
| "applyCall CallHandleCancelInitiatedEvent d h = snd (handleCancelInitiatedEvent d h)"
| "applyCall CallHandleCanceledEvent d h = snd (handleCanceledEvent d h)"
| "applyCall CallHandleCancelFailedEvent d h = snd (handleCancelFailedEvent d h)"
| "applyCall CallHandleCompletionEvent d h = snd (handleCompletionEvent d h)"
| "applyCall CallHandleInitiationFailedEvent d h = snd (handleInitiationFailedEvent d h)"
| "applyCall CallHandleInitiatedEvent d h = snd (handleInitiatedEvent d h)"
| "applyCall CallHandleDecisionSent d h = handleDecisionSent d h"

fun applyCalls :: "(machineCall \<times> nat) list \<Rightarrow> decisionsHelper \<Rightarrow> decisionsHelper" where
  "applyCalls [] h = h"
| "applyCalls (c # cs) h = applyCalls cs (applyCall (fst c) (snd c) h)"

subsection \<open>Concrete helpers used in examples\<close>

definition timer1 :: StartTimerDecisionAttributes where
  "timer1 = \<lparr>TimerId = ''1'', StartToFireTimeout = 60\<rparr>"

definition helperWithTimer :: decisionsHelper where
  "helperWithTimer = snd (startTimer timer1 newDecisionsHelper)"

definition helperTimerSent :: decisionsHelper where
  "helperTimerSent = snd (getDecisions True helperWithTimer)"

section \<open>Properties\<close>

lemma nth_updMachine:
  "machines (updMachine d f h) ! e =
     (if e = d \<and> d < length (machines h) then f (machines h ! d) else machines h ! e)"
  by (cases "d < length (machines h)") (auto simp: updMachine_def list_update_beyond)

lemma length_updMachine [simp]: "length (machines (updMachine d f h)) = length (machines h)"
  by (simp add: updMachine_def)

lemma updMachine_other [simp]:
  "orderedDecisions (updMachine d f h) = orderedDecisions h"
  "decisions (updMachine d f h) = decisions h"
  "scheduledEventIDToActivityID (updMachine d f h) = scheduledEventIDToActivityID h"
  "scheduledEventIDToCancellationID (updMachine d f h) = scheduledEventIDToCancellationID h"
  "scheduledEventIDToSignalID (updMachine d f h) = scheduledEventIDToSignalID h"
  by (simp_all add: updMachine_def)

lemma frame_refl [simp]: "frame h h"
  by (simp add: frame_def)

lemma frame_trans: "frame h h' \<Longrightarrow> frame h' h'' \<Longrightarrow> frame h h''"
  by (simp add: frame_def)

lemma machines_moveState:
  "machines (moveState d s e h) =
     machines (updMachine d (\<lambda>m. m\<lparr>history := history m @ [e, decisionState_String s], state := s\<rparr>) h)"
  by (simp add: moveState_def Let_def split: option.splits)

lemma frame_moveState [simp]: "frame h (moveState d s e h)"
  by (simp add: frame_def machines_moveState nth_updMachine)

lemma frame_appendHistory [simp]: "frame h (appendHistory d e h)"
  by (simp add: frame_def appendHistory_def nth_updMachine)

lemma frame_failStateTransition [simp]: "frame h (snd (failStateTransition d e h))"
  by (simp add: failStateTransition_def)

lemma frame_base [simp]:
  "frame h (base_handleDecisionSent d h)"
  "frame h (snd (base_cancel d h))"
  "frame h (snd (base_handleInitiatedEvent d h))"
  "frame h (snd (base_handleInitiationFailedEvent d h))"
  "frame h (snd (base_handleStartedEvent d h))"
  "frame h (snd (base_handleCompletionEvent d h))"
  "frame h (snd (base_handleCancelFailedEvent d h))"
  "frame h (snd (base_handleCanceledEvent d h))"
  by (simp_all add: base_handleDecisionSent_def base_cancel_def base_handleInitiatedEvent_def
      base_handleInitiationFailedEvent_def base_handleStartedEvent_def
      base_handleCompletionEvent_def base_handleCancelFailedEvent_def
      base_handleCanceledEvent_def split: decisionState.split)

lemma frame_base_handleCancelInitiatedEvent [simp]:
  "frame h (snd (base_handleCancelInitiatedEvent d h))"
  by (simp add: base_handleCancelInitiatedEvent_def Let_def failStateTransition_def
      split: decisionState.split)

lemma frame_timer_cancel [simp]: "frame h (snd (timer_cancel d h))"
proof -
  have "frame h (updMachine d (\<lambda>m. m\<lparr>canceled := True\<rparr>) h)"
    by (simp add: frame_def nth_updMachine)
  then show ?thesis
    unfolding timer_cancel_def by (rule frame_trans) simp
qed

lemma frame_variants [simp]:
  "frame h (activity_handleDecisionSent d h)"
  "frame h (snd (activity_handleCancelFailedEvent d h))"
  "frame h (timer_handleDecisionSent d h)"
  "frame h (snd (timer_handleCancelFailedEvent d h))"
  "frame h (childWorkflow_handleDecisionSent d h)"
  "frame h (snd (childWorkflow_handleStartedEvent d h))"
  "frame h (snd (childWorkflow_handleCancelFailedEvent d h))"
  "frame h (snd (childWorkflow_cancel d h))"
  "frame h (snd (childWorkflow_handleCanceledEvent d h))"
  "frame h (snd (childWorkflow_handleCompletionEvent d h))"
  "frame h (snd (naive_unsupported h))"
  "frame h (snd (cancelExternalWorkflow_handleInitiatedEvent d h))"
  "frame h (snd (cancelExternalWorkflow_handleCompletionEvent d h))"
  "frame h (snd (signalExternalWorkflow_handleInitiatedEvent d h))"
  "frame h (snd (signalExternalWorkflow_handleCompletionEvent d h))"
  "frame h (marker_handleDecisionSent d h)"
  "frame h (upsertSearchAttributes_handleDecisionSent d h)"
  by (simp_all add: activity_handleDecisionSent_def activity_handleCancelFailedEvent_def
      timer_handleDecisionSent_def timer_handleCancelFailedEvent_def
      childWorkflow_handleDecisionSent_def childWorkflow_handleStartedEvent_def
      childWorkflow_handleCancelFailedEvent_def childWorkflow_cancel_def
      childWorkflow_handleCanceledEvent_def childWorkflow_handleCompletionEvent_def
      naive_unsupported_def cancelExternalWorkflow_handleInitiatedEvent_def
      cancelExternalWorkflow_handleCompletionEvent_def
      signalExternalWorkflow_handleInitiatedEvent_def
      signalExternalWorkflow_handleCompletionEvent_def marker_handleDecisionSent_def
      upsertSearchAttributes_handleDecisionSent_def split: decisionState.split)

lemma frame_interface [simp]:
  "frame h (snd (cancel d h))"
  "frame h (snd (handleStartedEvent d h))"
  "frame h (snd (handleCancelInitiatedEvent d h))"
  "frame h (snd (handleCanceledEvent d h))"
  "frame h (snd (handleCancelFailedEvent d h))"
  "frame h (snd (handleCompletionEvent d h))"
  "frame h (snd (handleInitiationFailedEvent d h))"
  "frame h (snd (handleInitiatedEvent d h))"
  "frame h (handleDecisionSent d h)"
  by (simp_all add: cancel_def handleStartedEvent_def handleCancelInitiatedEvent_def
      handleCanceledEvent_def handleCancelFailedEvent_def handleCompletionEvent_def
      handleInitiationFailedEvent_def handleInitiatedEvent_def handleDecisionSent_def
      split: machineKind.split)

lemma frame_applyCall: "frame h (applyCall c d h)"
  by (cases c) simp_all

lemma frame_applyCalls: "frame h (applyCalls cs h)"
proof (induction cs arbitrary: h)
  case Nil
  show ?case by simp
next
  case (Cons c cs)
  have "frame h (applyCall (fst c) (snd c) h)" by (rule frame_applyCall)
  from this Cons.IH show ?case unfolding applyCalls.simps by (rule frame_trans)
qed

lemma timer_canceled_isDone:
  "kind (machines h ! d) = timerDecisionStateMachine \<Longrightarrow> canceled (machines h ! d) \<Longrightarrow> isDone d h"
  by (simp add: isDone_def timer_isDone_def)

lemma canceled_after_timer_cancel:
  assumes "d < length (machines h)"
  shows "canceled (machines (snd (timer_cancel d h)) ! d)"
proof -
  let ?h = "updMachine d (\<lambda>m. m\<lparr>canceled := True\<rparr>) h"
  have "canceled (machines ?h ! d)" using assms by (simp add: nth_updMachine)
  moreover have "frame ?h (snd (base_cancel d ?h))" by simp
  ultimately show ?thesis by (simp add: timer_cancel_def frame_def)
qed

text \<open>
  Claim C8. For every timer decision state machine, \<open>isDone\<close> is true as soon as \<open>cancel\<close>
  has been called on it, whatever the call did to the state and even if it panicked, and
  it stays true under every later call of the interface on any machine, so also in the
  intermediate states CanceledBeforeInitiated, CanceledAfterInitiated and
  CancellationDecisionSent, before any confirmation by the server. It is also true
  whenever the state is Completed.
\<close>

theorem timer_isDone_once_canceled:
  assumes "kind (machines h ! d) = timerDecisionStateMachine" and "d < length (machines h)"
  shows "isDone d (applyCalls cs (snd (cancel d h)))
         \<and> (getState d h = decisionStateCompleted \<longrightarrow> isDone d h)"
proof
  let ?h1 = "snd (cancel d h)"
  have c: "cancel d h = timer_cancel d h" using assms(1) by (simp add: cancel_def)
  have "canceled (machines ?h1 ! d)"
    using assms(2) by (simp add: c canceled_after_timer_cancel)
  moreover have f1: "frame h ?h1" by simp
  moreover have f2: "frame ?h1 (applyCalls cs ?h1)" by (rule frame_applyCalls)
  ultimately have "canceled (machines (applyCalls cs ?h1) ! d)"
    by (simp add: frame_def)
  moreover have "kind (machines (applyCalls cs ?h1) ! d) = timerDecisionStateMachine"
    using f1 f2 assms(1) by (simp add: frame_def)
  ultimately show "isDone d (applyCalls cs ?h1)" by (rule timer_canceled_isDone[rotated])
next
  show "getState d h = decisionStateCompleted \<longrightarrow> isDone d h"
    using assms(1) by (simp add: isDone_def timer_isDone_def)
qed

lemma moveState_fields [simp]:
  "length (machines (moveState d s e h)) = length (machines h)"
  "kind (machines (moveState d s e h) ! d') = kind (machines h ! d')"
  "attributes (machines (moveState d s e h) ! d') = attributes (machines h ! d')"
  "ident (machines (moveState d s e h) ! d') = ident (machines h ! d')"
  "data (machines (moveState d s e h) ! d') = data (machines h ! d')"
  "canceled (machines (moveState d s e h) ! d') = canceled (machines h ! d')"
  by (simp_all add: machines_moveState nth_updMachine)

lemma getState_moveState:
  "getState d' (moveState d s e h) = (if d' = d \<and> d < length (machines h) then s else getState d' h)"
  by (simp add: getState_def machines_moveState nth_updMachine)

lemma getState_set_canceled [simp]:
  "getState d' (updMachine d (\<lambda>m. m\<lparr>canceled := True\<rparr>) h) = getState d' h"
  "kind (machines (updMachine d (\<lambda>m. m\<lparr>canceled := True\<rparr>) h) ! d') = kind (machines h ! d')"
  "attributes (machines (updMachine d (\<lambda>m. m\<lparr>canceled := True\<rparr>) h) ! d') = attributes (machines h ! d')"
  by (simp_all add: getState_def nth_updMachine)

text \<open>
  Claim C6. A timer machine in state Created whose decision is sent, which is then
  cancelled, then receives the initiated event (TimerStarted), has its decision sent
  again and receives the canceled event, goes through Created, DecisionSent,
  CanceledBeforeInitiated, CanceledAfterInitiated, CancellationDecisionSent, Completed;
  no step panics; and \<open>getDecision\<close> yields the StartTimer decision in Created, the
  CancelTimer decision in CanceledAfterInitiated and nothing in the four other states:
  exactly one CancelTimer decision over the run.
\<close>

theorem timer_canceled_before_started_transitions:
  assumes "kind (machines h ! d) = timerDecisionStateMachine" and "d < length (machines h)"
    and "getState d h = decisionStateCreated"
    and "attributes (machines h ! d) = StartTimerDecision attr"
  shows
    "let h1 = handleDecisionSent d h;
         r2 = cancel d h1; h2 = snd r2;
         r3 = handleInitiatedEvent d h2; h3 = snd r3;
         h4 = handleDecisionSent d h3;
         r5 = handleCanceledEvent d h4; h5 = snd r5
     in map (getState d) [h, h1, h2, h3, h4, h5] =
          [decisionStateCreated, decisionStateDecisionSent, decisionStateCanceledBeforeInitiated,
           decisionStateCanceledAfterInitiated, decisionStateCancellationDecisionSent,
           decisionStateCompleted]
        \<and> fst r2 = Inr () \<and> fst r3 = Inr () \<and> fst r5 = Inr ()
        \<and> map (getDecision_of d) [h, h1, h2, h3, h4, h5] =
            [Some (StartTimerDecision attr), None, None,
             Some (CancelTimerDecision (TimerId attr)), None, None]"
  using assms
  by (simp add: Let_def handleDecisionSent_def timer_handleDecisionSent_def
      base_handleDecisionSent_def cancel_def timer_cancel_def base_cancel_def
      handleInitiatedEvent_def base_handleInitiatedEvent_def handleCanceledEvent_def
      base_handleCanceledEvent_def getDecision_of_def timer_getDecision_def
      getState_moveState)

lemmas helper_eval =
  startTimer_def addNew_def newTimerDecisionStateMachine_def alloc_def
  newDecisionStateMachineBase_def addDecision_def andThen_def getID_def getState_def
  makeDecisionID_def newDecisionsHelper_def withDecision_def getDecision_def MoveToBack_def
  cancelTimer_def handleTimerStarted_def handleTimerCanceled_def handleTimerClosed_def
  getDecisions_def getDecisionsBody_def updMachine_def moveState_def
  handleDecisionSent_def timer_handleDecisionSent_def
  base_handleDecisionSent_def cancel_def timer_cancel_def base_cancel_def
  handleInitiatedEvent_def base_handleInitiatedEvent_def handleCanceledEvent_def
  base_handleCanceledEvent_def getDecision_of_def timer_getDecision_def
  isDone_def timer_isDone_def base_isDone_def

theorem timer_canceled_before_started_witness:
  "kind (machines helperWithTimer ! 0) = timerDecisionStateMachine
   \<and> 0 < length (machines helperWithTimer)
   \<and> getState 0 helperWithTimer = decisionStateCreated
   \<and> attributes (machines helperWithTimer ! 0) = StartTimerDecision timer1
   \<and> (let h1 = handleDecisionSent 0 helperWithTimer;
         r2 = cancel 0 h1; h2 = snd r2;
         r3 = handleInitiatedEvent 0 h2; h3 = snd r3;
         h4 = handleDecisionSent 0 h3;
         r5 = handleCanceledEvent 0 h4; h5 = snd r5
     in map (getState 0) [helperWithTimer, h1, h2, h3, h4, h5] =
          [decisionStateCreated, decisionStateDecisionSent, decisionStateCanceledBeforeInitiated,
           decisionStateCanceledAfterInitiated, decisionStateCancellationDecisionSent,
           decisionStateCompleted]
        \<and> fst r2 = Inr () \<and> fst r3 = Inr () \<and> fst r5 = Inr ()
        \<and> map (getDecision_of 0) [helperWithTimer, h1, h2, h3, h4, h5] =
            [Some (StartTimerDecision timer1), None, None,
             Some (CancelTimerDecision ''1''), None, None])"
proof -
  have a: "kind (machines helperWithTimer ! 0) = timerDecisionStateMachine"
    and b: "0 < length (machines helperWithTimer)"
    and c: "getState 0 helperWithTimer = decisionStateCreated"
    and d: "attributes (machines helperWithTimer ! 0) = StartTimerDecision timer1"
    by (simp_all add: helperWithTimer_def helper_eval)
  have t: "TimerId timer1 = ''1''" by (simp add: timer1_def)
  show ?thesis
    using a b c d timer_canceled_before_started_transitions [OF a b c d] by (simp add: t)
qed

theorem timer_isDone_once_canceled_witness:
  "kind (machines helperTimerSent ! 0) = timerDecisionStateMachine
   \<and> 0 < length (machines helperTimerSent)
   \<and> getState 0 helperTimerSent = decisionStateDecisionSent
   \<and> fst (cancel 0 helperTimerSent) = Inr ()
   \<and> getState 0 (snd (cancel 0 helperTimerSent)) = decisionStateCanceledBeforeInitiated
   \<and> isDone 0 (applyCalls [] (snd (cancel 0 helperTimerSent)))
   \<and> getState 0 (applyCalls [(CallHandleInitiatedEvent, 0)] (snd (cancel 0 helperTimerSent)))
       = decisionStateCanceledAfterInitiated
   \<and> isDone 0 (applyCalls [(CallHandleInitiatedEvent, 0)] (snd (cancel 0 helperTimerSent)))
   \<and> getState 0 (applyCalls [(CallHandleInitiatedEvent, 0), (CallHandleDecisionSent, 0)]
                    (snd (cancel 0 helperTimerSent)))
       = decisionStateCancellationDecisionSent
   \<and> isDone 0 (applyCalls [(CallHandleInitiatedEvent, 0), (CallHandleDecisionSent, 0)]
                  (snd (cancel 0 helperTimerSent)))"
proof -
  have a: "kind (machines helperTimerSent ! 0) = timerDecisionStateMachine"
    and b: "0 < length (machines helperTimerSent)"
    by (simp_all add: helperTimerSent_def helperWithTimer_def helper_eval)
  have s: "getState 0 helperTimerSent = decisionStateDecisionSent"
    "fst (cancel 0 helperTimerSent) = Inr ()"
    "getState 0 (snd (cancel 0 helperTimerSent)) = decisionStateCanceledBeforeInitiated"
    "getState 0 (applyCalls [(CallHandleInitiatedEvent, 0)] (snd (cancel 0 helperTimerSent)))
       = decisionStateCanceledAfterInitiated"
    "getState 0 (applyCalls [(CallHandleInitiatedEvent, 0), (CallHandleDecisionSent, 0)]
                    (snd (cancel 0 helperTimerSent)))
       = decisionStateCancellationDecisionSent"
    by (simp_all add: helperTimerSent_def helperWithTimer_def helper_eval)
  show ?thesis
    using a b s
      timer_isDone_once_canceled [OF a b, of "[]"]
      timer_isDone_once_canceled [OF a b, of "[(CallHandleInitiatedEvent, 0)]"]
      timer_isDone_once_canceled [OF a b,
        of "[(CallHandleInitiatedEvent, 0), (CallHandleDecisionSent, 0)]"]
    by simp
qed

text \<open>The same run through the helper, as the decision task loop drives it.\<close>

lemma timer_run:
  "(let (ds1, h1) = getDecisions True helperWithTimer;
        (r2, h2) = cancelTimer ''1'' h1;
        (ds2, h2') = getDecisions True h2;
        (r3, h3) = handleTimerStarted ''1'' h2';
        (ds3, h4) = getDecisions True h3;
        (r5, h5) = handleTimerCanceled ''1'' h4;
        (ds4, h6) = getDecisions True h5
    in (ds1, r2, ds2, r3, ds3, r5, ds4, orderedDecisions h6, getState 0 h6, isDone 0 h2))
   = ([StartTimerDecision timer1], Inr 0, [], Inr 0, [CancelTimerDecision ''1''], Inr 0, [], [],
      decisionStateCompleted, True)"
  by (simp add: helperWithTimer_def helper_eval timer1_def)

end
